theory Spec2Isabelle
  imports Main
begin

section \<open>Data model (process\_manager/core/registry.py)\<close>

datatype ProcessType = PYTHON | NODEJS | SHELL | DOCKER | CUSTOM

datatype ProcessState =
  REGISTERED | STARTING | RUNNING | STOPPING | STOPPED | FAILED | CRASHED

text \<open>
  Timestamps are whole seconds: SQLite's \<open>CURRENT_TIMESTAMP\<close> and \<open>datetime('now')\<close>
  have a resolution of one second, and the text form \<open>YYYY-MM-DD HH:MM:SS\<close> orders as
  the instants do.
\<close>

type_synonym timestamp = int

record ProcessConfig =
  name :: string
  command :: string
  type :: ProcessType
  workdir :: string
  env :: "(string \<times> string) list"
  ports :: "int list"
  restart_policy :: string
  max_retries :: int
  health_check_endpoint :: "string option"
  health_check_interval :: int
  dependencies :: "string list"

text \<open>
  \<open>ProcessInfo.id\<close> is called \<open>id_key\<close> here (\<open>id\<close> is the identity function of HOL).
\<close>

record ProcessInfo =
  id_key :: string
  config :: ProcessConfig
  state :: ProcessState
  pid :: "int option"
  started_at :: "timestamp option"
  stopped_at :: "timestamp option"
  restart_count :: int
  last_heartbeat :: "timestamp option"
  error_message :: "string option"

text \<open>
  A row of the table \<open>processes\<close>: the columns of a \<open>ProcessInfo\<close> (the column
  \<open>config\<close> holds the JSON of the configuration, read back by \<open>from_dict\<close>), and the
  three columns \<open>_row_to_process_info\<close> drops: \<open>name\<close>, \<open>created_at\<close>, \<open>updated_at\<close>.
  The table is the list of its rows in insertion order.
\<close>

record row = ProcessInfo +
  name_col :: string
  created_at :: timestamp
  updated_at :: timestamp

type_synonym store = "row list"

definition row_to_process_info :: "row \<Rightarrow> ProcessInfo" where
  "row_to_process_info r =
     \<lparr>id_key = id_key r, config = config r, state = state r, pid = pid r,
      started_at = started_at r, stopped_at = stopped_at r,
      restart_count = restart_count r, last_heartbeat = last_heartbeat r,
      error_message = error_message r\<rparr>"

section \<open>Registry operations\<close>

text \<open>\<open>SELECT * FROM processes WHERE id = ?\<close> followed by \<open>fetchone()\<close>.\<close>

definition select_by_id :: "store \<Rightarrow> string \<Rightarrow> row option" where
  "select_by_id db process_id = find (\<lambda>r. id_key r = process_id) db"

text \<open>\<open>SELECT id FROM processes WHERE name = ?\<close> followed by \<open>fetchone()\<close>.\<close>

definition select_by_name :: "store \<Rightarrow> string \<Rightarrow> row option" where
  "select_by_name db n = find (\<lambda>r. name_col r = n) db"

definition get_process :: "store \<Rightarrow> string \<Rightarrow> ProcessInfo option" where
  "get_process db process_id = map_option row_to_process_info (select_by_id db process_id)"

text \<open>
  The broken-down local time \<open>datetime.now()\<close> returns, and
  \<open>strftime('%Y%m%d_%H%M%S')\<close>: each field in decimal, zero-padded to its width.
\<close>

record datetime =
  year :: nat
  month :: nat
  day :: nat
  hour :: nat
  minute :: nat
  second :: nat

definition digit_char :: "nat \<Rightarrow> char" where
  "digit_char d = ''0123456789'' ! (d mod 10)"

fun zpad :: "nat \<Rightarrow> nat \<Rightarrow> string" where
  "zpad 0 n = []"
| "zpad (Suc w) n = zpad w (n div 10) @ [digit_char n]"

definition strftime :: "datetime \<Rightarrow> string" where
  "strftime dt =
     zpad 4 (year dt) @ zpad 2 (month dt) @ zpad 2 (day dt) @ ''_'' @
     zpad 2 (hour dt) @ zpad 2 (minute dt) @ zpad 2 (second dt)"

text \<open>
  The values a \<open>datetime\<close> of today can hold; for a year below 1000 the C library
  does not pad \<open>%Y\<close>, so the width of four digits is only claimed from 1000 on.
\<close>

definition valid_datetime :: "datetime \<Rightarrow> bool" where
  "valid_datetime dt =
     (1000 \<le> year dt \<and> year dt \<le> 9999 \<and> 1 \<le> month dt \<and> month dt \<le> 12 \<and>
      1 \<le> day dt \<and> day dt \<le> 31 \<and> hour dt < 24 \<and> minute dt < 60 \<and> second dt < 60)"

text \<open>
  \<open>register\<close> raises \<open>ValueError\<close> when the name is taken. The \<open>INSERT\<close> itself is
  refused by the table's \<open>PRIMARY KEY\<close> constraint when the id is taken
  (\<open>sqlite3.IntegrityError\<close>); the \<open>UNIQUE\<close> constraint on \<open>name\<close> cannot fire after the
  check. The columns the \<open>INSERT\<close> does not list take their defaults.
\<close>

datatype error = ValueError string | IntegrityError

definition new_row :: "string \<Rightarrow> ProcessConfig \<Rightarrow> timestamp \<Rightarrow> row" where
  "new_row process_id cfg now =
     \<lparr>id_key = process_id, config = cfg, state = REGISTERED, pid = None,
      started_at = None, stopped_at = None, restart_count = 0,
      last_heartbeat = None, error_message = None,
      name_col = name cfg, created_at = now, updated_at = now\<rparr>"

definition register :: "store \<Rightarrow> timestamp \<Rightarrow> datetime \<Rightarrow> ProcessConfig \<Rightarrow> (error + string) \<times> store" where
  "register db now dt cfg =
     (case select_by_name db (name cfg) of
        Some r \<Rightarrow>
          (Inl (ValueError (''Process with name '' @ [CHR 0x27] @ name cfg @ [CHR 0x27] @ '' already exists'')), db)
      | None \<Rightarrow>
          (let process_id = name cfg @ ''_'' @ strftime dt in
           case select_by_id db process_id of
             Some r \<Rightarrow> (Inl IntegrityError, db)
           | None \<Rightarrow> (Inr process_id, db @ [new_row process_id cfg now])))"

definition unregister :: "store \<Rightarrow> string \<Rightarrow> bool \<times> store" where
  "unregister db process_id =
     (select_by_id db process_id \<noteq> None, filter (\<lambda>r. id_key r \<noteq> process_id) db)"

text \<open>
  \<open>update_state\<close> builds one \<open>UPDATE ... SET ... WHERE id = ?\<close>. When the assignment
  list names \<open>pid\<close> twice (a pid given, and a state that clears it), SQLite keeps the
  rightmost assignment, \<open>pid = NULL\<close>. \<open>if error:\<close> is false for \<open>None\<close> and for the
  empty string.
\<close>

definition update_state_row ::
  "timestamp \<Rightarrow> ProcessState \<Rightarrow> int option \<Rightarrow> string option \<Rightarrow> row \<Rightarrow> row" where
  "update_state_row now st p err r =
     (let r1 = r\<lparr>state := st, updated_at := now\<rparr>;
          r2 = (case p of None \<Rightarrow> r1 | Some v \<Rightarrow> r1\<lparr>pid := Some v\<rparr>);
          r3 = (if st = RUNNING then r2\<lparr>started_at := Some now, stopped_at := None\<rparr>
                else if st \<in> set [STOPPED, FAILED, CRASHED]
                then r2\<lparr>stopped_at := Some now, pid := None\<rparr>
                else r2)
      in (case err of
            None \<Rightarrow> r3
          | Some e \<Rightarrow> if e = [] then r3 else r3\<lparr>error_message := Some e\<rparr>))"

definition update_state ::
  "store \<Rightarrow> timestamp \<Rightarrow> string \<Rightarrow> ProcessState \<Rightarrow> int option \<Rightarrow> string option \<Rightarrow> store" where
  "update_state db now process_id st p err =
     map (\<lambda>r. if id_key r = process_id then update_state_row now st p err r else r) db"

definition update_heartbeat :: "store \<Rightarrow> timestamp \<Rightarrow> string \<Rightarrow> store" where
  "update_heartbeat db now process_id =
     map (\<lambda>r. if id_key r = process_id then r\<lparr>last_heartbeat := Some now\<rparr> else r) db"

definition increment_restart_count :: "store \<Rightarrow> string \<Rightarrow> store" where
  "increment_restart_count db process_id =
     map (\<lambda>r. if id_key r = process_id then r\<lparr>restart_count := restart_count r + 1\<rparr> else r) db"

text \<open>
  The \<open>WHERE\<close> clause of \<open>cleanup_stale_processes\<close>. \<open>last_heartbeat IS NOT NULL\<close> is
  the \<open>Some\<close> case. The modifier is the text \<open>'+' || timeout || ' seconds'\<close>: for a
  negative timeout it reads \<open>+-5 seconds\<close>, which SQLite does not parse, so
  \<open>datetime\<close> yields \<open>NULL\<close>, the comparison is \<open>NULL\<close> and the row is not selected.
\<close>

definition heartbeat_expired :: "timestamp \<Rightarrow> int \<Rightarrow> row \<Rightarrow> bool" where
  "heartbeat_expired now timeout_seconds r =
     (state r = RUNNING \<and>
      (case last_heartbeat r of
         None \<Rightarrow> False
       | Some hb \<Rightarrow> 0 \<le> timeout_seconds \<and> hb + timeout_seconds < now))"

definition cleanup_stale_processes :: "store \<Rightarrow> timestamp \<Rightarrow> int \<Rightarrow> store" where
  "cleanup_stale_processes db now timeout_seconds =
     map (\<lambda>r. if heartbeat_expired now timeout_seconds r
               then r\<lparr>state := CRASHED, error_message := Some ''Process heartbeat timeout''\<rparr>
               else r) db"

section \<open>Controller (process\_manager/core/controller.py)\<close>

text \<open>
  The controller's in-memory maps. A child handle (\<open>subprocess.Popen\<close>) is
  represented by the pid of its child; the restart threads and their stop events
  are represented by the sets of ids that have one.
\<close>

type_synonym Popen = int

record ProcessController =
  processes :: "string \<rightharpoonup> Popen"
  restart_threads :: "string set"
  stop_events :: "string set"

definition start_restart_monitor :: "ProcessController \<Rightarrow> string \<Rightarrow> ProcessController" where
  "start_restart_monitor ctl process_id =
     (if process_id \<in> restart_threads ctl then ctl
      else ctl\<lparr>stop_events := insert process_id (stop_events ctl),
               restart_threads := insert process_id (restart_threads ctl)\<rparr>)"

definition stop_restart_monitor :: "ProcessController \<Rightarrow> string \<Rightarrow> ProcessController" where
  "stop_restart_monitor ctl process_id =
     ctl\<lparr>restart_threads := restart_threads ctl - {process_id},
         stop_events := stop_events ctl - {process_id}\<rparr>"

text \<open>
  \<open>start_process\<close>. What the operating system answers to \<open>subprocess.Popen\<close> is the
  parameter \<open>spawn\<close>: the text of the exception raised, or the pid of the new child.
  The two registry writes happen at \<open>now\<close> and \<open>now'\<close>.
\<close>

definition start_process ::
  "ProcessController \<Rightarrow> store \<Rightarrow> timestamp \<Rightarrow> timestamp \<Rightarrow> string + int \<Rightarrow> string
     \<Rightarrow> bool \<times> ProcessController \<times> store" where
  "start_process ctl db now now' spawn process_id =
     (case get_process db process_id of
        None \<Rightarrow> (False, ctl, db)
      | Some process_info \<Rightarrow>
          if state process_info = RUNNING then (False, ctl, db)
          else
            (let db1 = update_state db now process_id STARTING None None in
             case spawn of
               Inl e \<Rightarrow> (False, ctl, update_state db1 now' process_id FAILED None (Some e))
             | Inr child_pid \<Rightarrow>
                 (let ctl1 = ctl\<lparr>processes := (processes ctl)(process_id \<mapsto> child_pid)\<rparr>;
                      db2 = update_state db1 now' process_id RUNNING (Some child_pid) None;
                      ctl2 = (if restart_policy (config process_info) \<noteq> ''never''
                              then start_restart_monitor ctl1 process_id else ctl1)
                  in (True, ctl2, db2))))"

text \<open>
  \<open>stop_process\<close>. Signalling and waiting for the child is the parameter
  \<open>termination\<close>: \<open>None\<close> when the \<open>try\<close> block runs through, the text of the
  exception otherwise. \<open>force\<close> only selects between \<open>kill\<close> and \<open>terminate\<close>.
\<close>

definition stop_process ::
  "ProcessController \<Rightarrow> store \<Rightarrow> timestamp \<Rightarrow> timestamp \<Rightarrow> string option \<Rightarrow> string \<Rightarrow> bool
     \<Rightarrow> bool \<times> ProcessController \<times> store" where
  "stop_process ctl db now now' termination process_id force =
     (case get_process db process_id of
        None \<Rightarrow> (False, ctl, db)
      | Some process_info \<Rightarrow>
          if state process_info \<in> set [STOPPED, CRASHED, FAILED]
          then (True, ctl\<lparr>processes := (processes ctl)(process_id := None)\<rparr>, db)
          else if state process_info \<noteq> RUNNING then (False, ctl, db)
          else
            (let ctl1 = stop_restart_monitor ctl process_id;
                 db1 = update_state db now process_id STOPPING None None
             in case termination of
                  None \<Rightarrow>
                    (True, ctl1\<lparr>processes := (processes ctl1)(process_id := None)\<rparr>,
                     update_state db1 now' process_id STOPPED None None)
                | Some e \<Rightarrow>
                    (False, ctl1, update_state db1 now' process_id FAILED None (Some e))))"

definition should_restart :: "string \<Rightarrow> int \<Rightarrow> int \<Rightarrow> int \<Rightarrow> bool" where
  "should_restart policy exit_code attempt max_retries_arg =
     (if policy = ''never'' then False
      else if policy = ''always'' then attempt < max_retries_arg
      else if policy = ''on-failure'' then exit_code \<noteq> 0 \<and> attempt < max_retries_arg
      else if policy = ''unless-stopped'' then exit_code \<noteq> 0 \<and> attempt < max_retries_arg
      else False)"

subsection \<open>Command composition\<close>

text \<open>
  \<open>str.isspace\<close> on the code points below 256, \<open>str.split()\<close> with no argument
  (runs of whitespace separate the tokens, none is empty) and \<open>os.path.basename\<close>
  (what follows the last slash).
\<close>

definition is_space :: "char \<Rightarrow> bool" where
  "is_space c = (of_char c \<in> set [9, 10, 11, 12, 13, 28, 29, 30, 31, 32, 133, 160 :: nat])"

fun split_from :: "string \<Rightarrow> string \<Rightarrow> string list" where
  "split_from cur [] = (if cur = [] then [] else [cur])"
| "split_from cur (c # cs) =
     (if is_space c then (if cur = [] then split_from [] cs else cur # split_from [] cs)
      else split_from (cur @ [c]) cs)"

definition split :: "string \<Rightarrow> string list" where
  "split s = split_from [] s"

fun basename :: "string \<Rightarrow> string" where
  "basename [] = []"
| "basename (c # cs) =
     (if CHR ''/'' \<in> set cs then basename cs
      else if c = CHR ''/'' then cs else c # cs)"

text \<open>
  \<open>_prepare_command\<close> returns a list (run with \<open>shell=False\<close>) or, for a shell
  command, the string itself (run with \<open>shell=True\<close>). \<open>venv_python\<close> is the path
  \<open>project_root/venv/bin/python\<close> when that file exists.
\<close>

datatype cmd = Argv "string list" | ShellString string

definition prepare_command :: "string option \<Rightarrow> ProcessConfig \<Rightarrow> cmd" where
  "prepare_command venv_python cfg =
     (if type cfg = PYTHON then
        (let script_name = basename (command cfg) in
         case venv_python of
           Some path \<Rightarrow> Argv [path, ''-u'', script_name]
         | None \<Rightarrow> Argv [''python3'', ''-u'', script_name])
      else if type cfg = NODEJS then Argv [''node'', command cfg]
      else if type cfg = SHELL then ShellString (command cfg)
      else if type cfg = DOCKER then Argv ([''docker'', ''run''] @ split (command cfg))
      else Argv (split (command cfg)))"

text \<open>The \<open>shell\<close> argument of \<open>Popen\<close>: \<open>False if isinstance(cmd, list) else True\<close>.\<close>

definition uses_shell :: "cmd \<Rightarrow> bool" where
  "uses_shell c = (case c of Argv _ \<Rightarrow> False | ShellString _ \<Rightarrow> True)"

section \<open>Monitor (process\_manager/core/monitor.py)\<close>

text \<open>
  \<open>_check_process\<close> gets the record as the tick read it; \<open>db\<close> is the store at the time
  of the re-read. \<open>is_process_running\<close> is the answer of the operating system.
  \<open>if process_info.pid:\<close> is false for \<open>None\<close> and for 0. When the record is gone at
  the re-read, \<open>.state\<close> raises and the \<open>except\<close> of the function logs it. Collecting
  metrics and probing the health endpoint write nothing to the registry; a health
  callback is code of the caller and is taken to leave the registry alone.
\<close>

definition check_process :: "store \<Rightarrow> timestamp \<Rightarrow> (int \<Rightarrow> bool) \<Rightarrow> ProcessInfo \<Rightarrow> store" where
  "check_process db now is_process_running process_info =
     (case pid process_info of
        None \<Rightarrow> db
      | Some p \<Rightarrow>
          if p = 0 then db
          else if \<not> is_process_running p then
            (case get_process db (id_key process_info) of
               None \<Rightarrow> db
             | Some current \<Rightarrow>
                 if state current \<notin> set [STOPPING, STOPPED]
                 then update_state db now (id_key process_info) CRASHED None
                        (Some ''Process not found'')
                 else db)
          else db)"

text \<open>One pass of \<open>_monitor_loop\<close> over a snapshot, then the cleanup with its default.\<close>

fun check_all :: "store \<Rightarrow> timestamp \<Rightarrow> (int \<Rightarrow> bool) \<Rightarrow> ProcessInfo list \<Rightarrow> store" where
  "check_all db now is_process_running [] = db"
| "check_all db now is_process_running (process_info # rest) =
     check_all
       (if state process_info = RUNNING
        then check_process db now is_process_running process_info else db)
       now is_process_running rest"

definition monitor_tick :: "store \<Rightarrow> timestamp \<Rightarrow> (int \<Rightarrow> bool) \<Rightarrow> store" where
  "monitor_tick db now is_process_running =
     cleanup_stale_processes
       (check_all db now is_process_running (map row_to_process_info db)) now 180"

section \<open>Heartbeat tracker (process\_manager/core/heartbeat.py)\<close>

record HeartbeatManager =
  active_processes :: "string set"

definition register_heartbeat ::
  "HeartbeatManager \<Rightarrow> store \<Rightarrow> timestamp \<Rightarrow> string \<Rightarrow> bool \<times> HeartbeatManager \<times> store" where
  "register_heartbeat hm db now process_id =
     (case get_process db process_id of
        None \<Rightarrow> (False, hm, db)
      | Some process_info \<Rightarrow>
          (let db1 = update_heartbeat db now process_id;
               hm1 = hm\<lparr>active_processes := insert process_id (active_processes hm)\<rparr>;
               db2 = (if state process_info = STARTING
                      then update_state db1 now process_id RUNNING None None else db1)
           in (True, hm1, db2)))"

section \<open>The transition table of the specification\<close>

text \<open>
  The legal transitions as the specification's table of the state machine lists them.
  No function of the source consults such a table; it is written here only to say
  which requests the table would refuse.
\<close>

definition spec_legal_transition :: "ProcessState \<Rightarrow> ProcessState \<Rightarrow> bool" where
  "spec_legal_transition a b =
     ((a, b) \<in> set [(REGISTERED, STARTING), (STOPPED, STARTING), (FAILED, STARTING),
                    (STARTING, RUNNING), (STARTING, FAILED), (RUNNING, STOPPING),
                    (STOPPING, STOPPED), (RUNNING, CRASHED), (RUNNING, FAILED),
                    (RUNNING, STOPPED)])"

section \<open>Example data\<close>

definition example_config :: ProcessConfig where
  "example_config =
     \<lparr>name = ''w'', command = ''app.py'', type = PYTHON, workdir = ''/tmp'', env = [],
      ports = [], restart_policy = ''never'', max_retries = 3,
      health_check_endpoint = None, health_check_interval = 30, dependencies = []\<rparr>"

definition example_row :: "ProcessState \<Rightarrow> int option \<Rightarrow> timestamp option \<Rightarrow> row" where
  "example_row st p hb =
     \<lparr>id_key = ''w_20250101_120000'', config = example_config, state = st, pid = p,
      started_at = Some 10, stopped_at = None, restart_count = 0,
      last_heartbeat = hb, error_message = None,
      name_col = ''w'', created_at = 5, updated_at = 10\<rparr>"

definition no_process_running :: "int \<Rightarrow> bool" where
  "no_process_running p = False"

definition example_controller :: ProcessController where
  "example_controller =
     \<lparr>processes = [''w_20250101_120000'' \<mapsto> 4242], restart_threads = {}, stop_events = {}\<rparr>"

section \<open>Ids minted by the registry\<close>

text \<open>
  Every row is inserted by \<open>register\<close>, and no operation rewrites the id or the name
  of a row: the id is the name, an underscore and the 15 characters of the timestamp.
\<close>

definition id_well_formed :: "row \<Rightarrow> bool" where
  "id_well_formed r =
     (length (id_key r) = length (name_col r) + 16 \<and>
      take (length (name_col r) + 1) (id_key r) = name_col r @ ''_'')"

definition registry_invariant :: "store \<Rightarrow> bool" where
  "registry_invariant db = list_all id_well_formed db"

text \<open>The number a string of decimal digits denotes.\<close>

definition decimal :: "string \<Rightarrow> nat" where
  "decimal s = foldl (\<lambda>a c. 10 * a + (of_char c - 48)) 0 s"

definition example_datetime :: datetime where
  "example_datetime = \<lparr>year = 2025, month = 1, day = 1, hour = 12, minute = 0, second = 0\<rparr>"

section \<open>Lemmas about the registry\<close>

lemma id_key_update_state_row [simp]:
  "id_key (update_state_row now st p e r) = id_key r"
  by (simp add: update_state_row_def Let_def split: option.splits)

lemma state_update_state_row [simp]:
  "state (update_state_row now st p e r) = st"
  by (simp add: update_state_row_def Let_def split: option.splits)

lemma select_by_id_update_state:
  "select_by_id (update_state db now i st p e) j =
     (if j = i then map_option (update_state_row now st p e) (select_by_id db i)
      else select_by_id db j)"
  by (induction db) (auto simp: select_by_id_def update_state_def)

lemma update_state_other_rows:
  "filter (\<lambda>r. id_key r \<noteq> i) (update_state db now i st p e) = filter (\<lambda>r. id_key r \<noteq> i) db"
  by (induction db) (auto simp: update_state_def)

section \<open>State transitions are not checked against the table\<close>

text \<open>
  C1 (as the code has it). \<open>update_state\<close> has no legality check and returns no value:
  for every store, id and requested state, every record with that id is in the
  requested state afterwards, whatever its state before; the records with another id
  keep their state, and no record is added or removed.
\<close>

theorem update_state_applies_any_transition:
  "map state (update_state db now i st p e) = map (\<lambda>r. if id_key r = i then st else state r) db \<and>
   map id_key (update_state db now i st p e) = map id_key db \<and>
   state (update_state_row now st p e r) = st"
  by (simp add: update_state_def)

text \<open>
  C1 as stated fails: STOPPED to RUNNING is not in the table, and \<open>update_state\<close>
  carries it out, rewriting state, \<open>started_at\<close> and \<open>updated_at\<close>.
\<close>

theorem update_state_illegal_transition_counterexample:
  "\<not> spec_legal_transition STOPPED RUNNING \<and>
   state (example_row STOPPED None None) = STOPPED \<and>
   update_state [example_row STOPPED None None] 50 ''w_20250101_120000'' RUNNING None None =
     [(example_row STOPPED None None)
        \<lparr>state := RUNNING, started_at := Some 50, stopped_at := None, updated_at := 50\<rparr>] \<and>
   update_state [example_row STOPPED None None] 50 ''w_20250101_120000'' RUNNING None None \<noteq>
     [example_row STOPPED None None]"
  by (simp add: spec_legal_transition_def update_state_def update_state_row_def example_row_def)

section \<open>The restart decision\<close>

text \<open>
  C4. \<open>_should_restart\<close> is false for the policy never, \<open>attempt < max_retries\<close> for
  always, and \<open>exit_code \<noteq> 0\<close> together with \<open>attempt < max_retries\<close> for on-failure and
  unless-stopped. Under any policy string it is true only when
  \<open>attempt < max_retries\<close>; so with \<open>max_retries = 0\<close> no attempt (a count, so not
  negative) is restarted.
\<close>

theorem should_restart_decision:
  "\<not> should_restart ''never'' c a m \<and>
   should_restart ''always'' c a m = (a < m) \<and>
   should_restart ''on-failure'' c a m = (c \<noteq> 0 \<and> a < m) \<and>
   should_restart ''unless-stopped'' c a m = (c \<noteq> 0 \<and> a < m) \<and>
   (should_restart policy c a m \<longrightarrow> a < m) \<and>
   (0 \<le> a \<longrightarrow> \<not> should_restart policy c a 0)"
  by (simp add: should_restart_def)

theorem should_restart_decision_witness:
  "should_restart ''always'' 1 0 3 \<and> (0::int) < 3 \<and> \<not> should_restart ''always'' 1 0 0"
  using should_restart_decision [where c = 1 and a = 0 and m = 3 and policy = "''always''"]
  by simp

section \<open>Side effects of entering a state\<close>

text \<open>
  C5. For an existing record, \<open>update_state\<close> writes the requested state and
  \<open>updated_at\<close>; entering RUNNING sets \<open>started_at\<close> to now and clears \<open>stopped_at\<close>;
  entering STOPPED, FAILED or CRASHED sets \<open>stopped_at\<close> to now and clears \<open>pid\<close>;
  otherwise the timestamps stay and \<open>pid\<close> is the one given, if any. The error message
  is replaced by a non-empty one given. Id, config, restart count, last heartbeat,
  name and creation time are unchanged, and so is every other record. Applying the same
  transition a second time (at a later moment) gives the same state, pid and error
  message as applying it once.
\<close>

theorem update_state_entry_effects:
  assumes "select_by_id db i = Some r"
  shows "(let r' = update_state_row now st p e r;
              r'' = update_state_row now' st p e r' in
     select_by_id (update_state db now i st p e) i = Some r' \<and>
     filter (\<lambda>x. id_key x \<noteq> i) (update_state db now i st p e) = filter (\<lambda>x. id_key x \<noteq> i) db \<and>
     state r' = st \<and> updated_at r' = now \<and>
     (st = RUNNING \<longrightarrow> started_at r' = Some now \<and> stopped_at r' = None) \<and>
     (st \<in> {STOPPED, FAILED, CRASHED} \<longrightarrow> stopped_at r' = Some now \<and> pid r' = None) \<and>
     (st \<noteq> RUNNING \<longrightarrow> started_at r' = started_at r) \<and>
     (st \<in> {REGISTERED, STARTING, STOPPING} \<longrightarrow> stopped_at r' = stopped_at r) \<and>
     (st \<notin> {STOPPED, FAILED, CRASHED} \<longrightarrow>
        pid r' = (case p of None \<Rightarrow> pid r | Some v \<Rightarrow> Some v)) \<and>
     error_message r' =
       (case e of None \<Rightarrow> error_message r
        | Some m \<Rightarrow> if m = [] then error_message r else Some m) \<and>
     id_key r' = id_key r \<and> config r' = config r \<and> restart_count r' = restart_count r \<and>
     last_heartbeat r' = last_heartbeat r \<and> name_col r' = name_col r \<and>
     created_at r' = created_at r \<and>
     select_by_id (update_state (update_state db now i st p e) now' i st p e) i = Some r'' \<and>
     state r'' = state r' \<and> pid r'' = pid r' \<and> error_message r'' = error_message r')"
  using assms
  by (cases st) (simp_all add: Let_def select_by_id_update_state update_state_other_rows
      update_state_row_def split: option.splits)

theorem update_state_entry_effects_witness:
  "select_by_id [example_row STARTING None None] ''w_20250101_120000'' =
     Some (example_row STARTING None None) \<and>
   select_by_id
     (update_state [example_row STARTING None None] 50 ''w_20250101_120000'' RUNNING (Some 4242) None)
     ''w_20250101_120000'' =
     Some ((example_row STARTING None None)
        \<lparr>state := RUNNING, pid := Some 4242, started_at := Some 50, stopped_at := None,
         updated_at := 50\<rparr>)"
proof -
  have h: "select_by_id [example_row STARTING None None] ''w_20250101_120000'' =
     Some (example_row STARTING None None)"
    by (simp add: select_by_id_def example_row_def)
  show ?thesis
    using h update_state_entry_effects [OF h, of 50 RUNNING "Some 4242" None 60]
    by (simp add: Let_def update_state_row_def example_row_def)
qed

section \<open>Lemmas about heartbeats and records\<close>

lemma select_by_id_update_heartbeat:
  "select_by_id (update_heartbeat db now i) j =
     (if j = i then map_option (\<lambda>r. r\<lparr>last_heartbeat := Some now\<rparr>) (select_by_id db i)
      else select_by_id db j)"
  by (induction db) (auto simp: select_by_id_def update_heartbeat_def)

lemma update_heartbeat_other_rows:
  "filter (\<lambda>r. id_key r \<noteq> i) (update_heartbeat db now i) = filter (\<lambda>r. id_key r \<noteq> i) db"
  by (induction db) (auto simp: update_heartbeat_def)

lemma state_row_to_process_info [simp]:
  "state (row_to_process_info r) = state r"
  "pid (row_to_process_info r) = pid r"
  "id_key (row_to_process_info r) = id_key r"
  "config (row_to_process_info r) = config r"
  by (simp_all add: row_to_process_info_def)

section \<open>Cleanup of stale processes\<close>

text \<open>
  C3 (as the code has it). \<open>cleanup_stale_processes\<close> keeps the number and order of the
  records. For a timeout that is not negative it rewrites exactly the records that are
  RUNNING and have a recorded \<open>last_heartbeat\<close> with \<open>last_heartbeat + T < now\<close>: their
  state becomes CRASHED and their error message \<open>Process heartbeat timeout\<close>, every
  other column staying as it was. Every other record is unchanged, among them a
  RUNNING record that never recorded a heartbeat; a negative timeout selects no record.
\<close>

theorem cleanup_stale_processes_exact:
  "length (cleanup_stale_processes db now T) = length db \<and>
   (\<forall>k < length db.
      (state (db ! k) = RUNNING \<and> 0 \<le> T \<and>
       (\<exists>hb. last_heartbeat (db ! k) = Some hb \<and> hb + T < now) \<longrightarrow>
         cleanup_stale_processes db now T ! k =
           (db ! k)\<lparr>state := CRASHED, error_message := Some ''Process heartbeat timeout''\<rparr>) \<and>
      (state (db ! k) \<noteq> RUNNING \<or> last_heartbeat (db ! k) = None \<or> T < 0 \<or>
       (\<exists>hb. last_heartbeat (db ! k) = Some hb \<and> now \<le> hb + T) \<longrightarrow>
         cleanup_stale_processes db now T ! k = db ! k))"
  by (auto simp: cleanup_stale_processes_def heartbeat_expired_def split: option.splits)

theorem cleanup_stale_processes_exact_witness:
  "length (cleanup_stale_processes
     [example_row RUNNING (Some 7) (Some 100), example_row RUNNING (Some 8) None,
      example_row RUNNING (Some 9) (Some 900)] 1000 180) = 3 \<and>
   cleanup_stale_processes
     [example_row RUNNING (Some 7) (Some 100), example_row RUNNING (Some 8) None,
      example_row RUNNING (Some 9) (Some 900)] 1000 180 ! 0 =
     (example_row RUNNING (Some 7) (Some 100))
        \<lparr>state := CRASHED, error_message := Some ''Process heartbeat timeout''\<rparr> \<and>
   cleanup_stale_processes
     [example_row RUNNING (Some 7) (Some 100), example_row RUNNING (Some 8) None,
      example_row RUNNING (Some 9) (Some 900)] 1000 180 ! 1 =
     example_row RUNNING (Some 8) None \<and>
   cleanup_stale_processes
     [example_row RUNNING (Some 7) (Some 100), example_row RUNNING (Some 8) None,
      example_row RUNNING (Some 9) (Some 900)] 1000 180 ! 2 =
     example_row RUNNING (Some 9) (Some 900)"
proof -
  let ?db = "[example_row RUNNING (Some 7) (Some 100), example_row RUNNING (Some 8) None,
      example_row RUNNING (Some 9) (Some 900)]"
  note t = cleanup_stale_processes_exact [of ?db 1000 180]
  from t have len: "length (cleanup_stale_processes ?db 1000 180) = 3" by simp
  from t [THEN conjunct2, THEN spec, of 0]
  have a: "cleanup_stale_processes ?db 1000 180 ! 0 =
      (example_row RUNNING (Some 7) (Some 100))
        \<lparr>state := CRASHED, error_message := Some ''Process heartbeat timeout''\<rparr>"
    by (simp add: example_row_def)
  from t [THEN conjunct2, THEN spec, of 1]
  have b: "cleanup_stale_processes ?db 1000 180 ! 1 = example_row RUNNING (Some 8) None"
    by (simp add: example_row_def)
  from t [THEN conjunct2, THEN spec, of 2]
  have c: "cleanup_stale_processes ?db 1000 180 ! 2 = example_row RUNNING (Some 9) (Some 900)"
    by (simp add: example_row_def)
  show ?thesis
    using len a b c by blast
qed

text \<open>
  C3 as stated fails: a RUNNING record with no heartbeat on record is left RUNNING, and
  the message written for an expired one is \<open>Process heartbeat timeout\<close>.
\<close>

theorem cleanup_never_heartbeat_counterexample:
  "state (example_row RUNNING (Some 8) None) = RUNNING \<and>
   last_heartbeat (example_row RUNNING (Some 8) None) = None \<and>
   cleanup_stale_processes [example_row RUNNING (Some 8) None] 1000 180 =
     [example_row RUNNING (Some 8) None] \<and>
   map error_message (cleanup_stale_processes [example_row RUNNING (Some 7) (Some 100)] 1000 180) =
     [Some ''Process heartbeat timeout'']"
  by (simp add: cleanup_stale_processes_def heartbeat_expired_def example_row_def)

section \<open>Stopping a record that is already stopped\<close>

text \<open>
  C7. For a record in STOPPED, FAILED or CRASHED, \<open>stop_process\<close> returns \<open>True\<close>
  whatever \<open>force\<close> is, removes the handle kept for the id, and leaves the store, the
  restart threads and the stop events as they were.
\<close>

theorem stop_process_already_stopped:
  assumes "select_by_id db i = Some r" and "state r \<in> {STOPPED, FAILED, CRASHED}"
  shows "stop_process ctl db now now' termination i force =
           (True, ctl\<lparr>processes := (processes ctl)(i := None)\<rparr>, db) \<and>
         processes (ctl\<lparr>processes := (processes ctl)(i := None)\<rparr>) i = None"
  using assms by (auto simp: stop_process_def get_process_def)

theorem stop_process_already_stopped_witness:
  "stop_process example_controller [example_row CRASHED None None] 50 60 None
     ''w_20250101_120000'' False =
     (True, \<lparr>processes = Map.empty, restart_threads = {}, stop_events = {}\<rparr>,
      [example_row CRASHED None None])"
proof -
  have h: "select_by_id [example_row CRASHED None None] ''w_20250101_120000'' =
     Some (example_row CRASHED None None)"
    by (simp add: select_by_id_def example_row_def)
  have s: "state (example_row CRASHED None None) \<in> {STOPPED, FAILED, CRASHED}"
    by (simp add: example_row_def)
  show ?thesis
    using stop_process_already_stopped [OF h s, of example_controller 50 60 None False]
    by (simp add: example_controller_def)
qed

section \<open>The monitor's crash detection\<close>

text \<open>
  C8 (as the code has it). When the pid of the record the tick read is not that of a
  live process, \<open>_check_process\<close> re-reads the record: if its state is STOPPING or
  STOPPED the store is left alone; in every other state (RUNNING, and also REGISTERED,
  STARTING, FAILED, CRASHED) it writes CRASHED with the message \<open>Process not found\<close>,
  through \<open>update_state\<close>.
\<close>

theorem check_process_crash_write:
  assumes "pid info = Some p" and "p \<noteq> 0" and "\<not> alive p"
    and "select_by_id db (id_key info) = Some cur"
  shows "(state cur \<in> {STOPPING, STOPPED} \<longrightarrow> check_process db now alive info = db) \<and>
         (state cur \<notin> {STOPPING, STOPPED} \<longrightarrow>
            check_process db now alive info =
              update_state db now (id_key info) CRASHED None (Some ''Process not found'') \<and>
            select_by_id (check_process db now alive info) (id_key info) =
              Some (cur\<lparr>state := CRASHED, updated_at := now, stopped_at := Some now,
                        pid := None, error_message := Some ''Process not found''\<rparr>))"
  using assms
  by (auto simp: check_process_def get_process_def select_by_id_update_state
      update_state_row_def)

theorem check_process_crash_write_witness:
  "check_process [example_row STOPPING (Some 4242) None] 50 no_process_running
     (row_to_process_info (example_row RUNNING (Some 4242) None)) =
     [example_row STOPPING (Some 4242) None]"
proof -
  have a: "pid (row_to_process_info (example_row RUNNING (Some 4242) None)) = Some 4242"
    by (simp add: example_row_def)
  have b: "(4242::int) \<noteq> 0" by simp
  have c: "\<not> no_process_running 4242" by (simp add: no_process_running_def)
  have d: "select_by_id [example_row STOPPING (Some 4242) None]
      (id_key (row_to_process_info (example_row RUNNING (Some 4242) None))) =
      Some (example_row STOPPING (Some 4242) None)"
    by (simp add: select_by_id_def example_row_def)
  show ?thesis
    using a b c d
      check_process_crash_write [where info = "row_to_process_info (example_row RUNNING (Some 4242) None)"
        and p = 4242 and alive = no_process_running
        and db = "[example_row STOPPING (Some 4242) None]"
        and cur = "example_row STOPPING (Some 4242) None" and now = 50]
    by (simp add: example_row_def)
qed

text \<open>
  C8 as stated fails: the tick read the record as RUNNING, the re-read finds FAILED,
  and the monitor writes CRASHED over it.
\<close>

theorem check_process_overwrites_failed_counterexample:
  "state (row_to_process_info (example_row RUNNING (Some 4242) None)) = RUNNING \<and>
   map state [example_row FAILED None None] = [FAILED] \<and>
   check_process [example_row FAILED None None] 50 no_process_running
     (row_to_process_info (example_row RUNNING (Some 4242) None)) =
     [(example_row FAILED None None)
        \<lparr>state := CRASHED, stopped_at := Some 50, error_message := Some ''Process not found'',
         updated_at := 50\<rparr>]"
  by (simp add: check_process_def get_process_def select_by_id_def update_state_def
      update_state_row_def example_row_def row_to_process_info_def no_process_running_def)

section \<open>Heartbeats\<close>

text \<open>
  C10. \<open>register_heartbeat\<close> for an unknown id returns \<open>False\<close> and changes nothing.
  For a known id it returns \<open>True\<close> and leaves every other record alone; when the
  record is not in STARTING, the store is the one \<open>update_heartbeat\<close> gives, and the
  record differs from before in \<open>last_heartbeat\<close> only (its state stays, so a record in
  CRASHED, STOPPED or FAILED is not moved to RUNNING); a record in STARTING is moved to
  RUNNING.
\<close>

theorem register_heartbeat_effects:
  "(select_by_id db i = None \<longrightarrow> register_heartbeat hm db now i = (False, hm, db)) \<and>
   (select_by_id db i = Some r \<longrightarrow>
      (\<exists>db'. register_heartbeat hm db now i =
                (True, hm\<lparr>active_processes := insert i (active_processes hm)\<rparr>, db') \<and>
             filter (\<lambda>x. id_key x \<noteq> i) db' = filter (\<lambda>x. id_key x \<noteq> i) db \<and>
             (state r \<noteq> STARTING \<longrightarrow>
                db' = update_heartbeat db now i \<and>
                select_by_id db' i = Some (r\<lparr>last_heartbeat := Some now\<rparr>)) \<and>
             (state r = STARTING \<longrightarrow>
                select_by_id db' i =
                  Some (r\<lparr>last_heartbeat := Some now, state := RUNNING, updated_at := now,
                           started_at := Some now, stopped_at := None\<rparr>))))"
  by (auto simp: register_heartbeat_def get_process_def Let_def select_by_id_update_state
      select_by_id_update_heartbeat update_state_other_rows update_heartbeat_other_rows
      update_state_row_def)

theorem register_heartbeat_effects_witness:
  "register_heartbeat \<lparr>active_processes = {}\<rparr> [example_row CRASHED None None] 50 ''nobody'' =
     (False, \<lparr>active_processes = {}\<rparr>, [example_row CRASHED None None]) \<and>
   register_heartbeat \<lparr>active_processes = {}\<rparr> [example_row CRASHED None None] 50
     ''w_20250101_120000'' =
     (True, \<lparr>active_processes = {''w_20250101_120000''}\<rparr>,
      [(example_row CRASHED None None)\<lparr>last_heartbeat := Some 50\<rparr>])"
proof -
  have n: "select_by_id [example_row CRASHED None None] ''nobody'' = None"
    by (simp add: select_by_id_def example_row_def)
  have h: "select_by_id [example_row CRASHED None None] ''w_20250101_120000'' =
     Some (example_row CRASHED None None)"
    by (simp add: select_by_id_def example_row_def)
  have u: "update_heartbeat [example_row CRASHED None None] 50 ''w_20250101_120000'' =
     [(example_row CRASHED None None)\<lparr>last_heartbeat := Some 50\<rparr>]"
    by (simp add: update_heartbeat_def example_row_def)
  have s: "state (example_row CRASHED None None) \<noteq> STARTING"
    by (simp add: example_row_def)
  from n register_heartbeat_effects [of "[example_row CRASHED None None]" "''nobody''"
      "\<lparr>active_processes = {}\<rparr>" 50]
  have a: "register_heartbeat \<lparr>active_processes = {}\<rparr> [example_row CRASHED None None] 50 ''nobody'' =
     (False, \<lparr>active_processes = {}\<rparr>, [example_row CRASHED None None])"
    by simp
  from h s u register_heartbeat_effects [of "[example_row CRASHED None None]"
      "''w_20250101_120000''" "\<lparr>active_processes = {}\<rparr>" 50 "example_row CRASHED None None"]
  have b: "register_heartbeat \<lparr>active_processes = {}\<rparr> [example_row CRASHED None None] 50
     ''w_20250101_120000'' =
     (True, \<lparr>active_processes = {''w_20250101_120000''}\<rparr>,
      [(example_row CRASHED None None)\<lparr>last_heartbeat := Some 50\<rparr>])"
    by auto
  from a b show ?thesis by simp
qed

section \<open>State and pid\<close>

lemma pid_update_state_row:
  "pid (update_state_row now st p e r) =
     (if st \<in> {STOPPED, FAILED, CRASHED} then None
      else case p of None \<Rightarrow> pid r | Some v \<Rightarrow> Some v)"
  by (simp add: update_state_row_def Let_def split: option.splits)

text \<open>
  C2 (as the code has it). For an existing record: \<open>update_state\<close> into STOPPED, FAILED
  or CRASHED clears \<open>pid\<close>; into RUNNING with a pid it sets that pid; with no pid given,
  entering REGISTERED, STARTING, RUNNING or STOPPING leaves \<open>pid\<close> as it was. So
  \<open>start_process\<close> ends in RUNNING with the pid of the child (or in FAILED with no pid
  when the spawn fails), \<open>stop_process\<close> on a RUNNING record ends in STOPPED (or FAILED)
  with no pid, the monitor's crash write ends in CRASHED with no pid, and
  \<open>register_heartbeat\<close> moves a STARTING record to RUNNING with the pid it had, which
  may be none.
\<close>

theorem pid_after_transitions:
  assumes "select_by_id db i = Some r"
  shows
    "(st \<in> {STOPPED, FAILED, CRASHED} \<longrightarrow>
        (\<exists>r'. select_by_id (update_state db now i st p e) i = Some r' \<and>
              state r' = st \<and> pid r' = None)) \<and>
     (\<exists>r'. select_by_id (update_state db now i RUNNING (Some v) e) i = Some r' \<and>
           state r' = RUNNING \<and> pid r' = Some v) \<and>
     (st \<in> {REGISTERED, STARTING, RUNNING, STOPPING} \<longrightarrow>
        (\<exists>r'. select_by_id (update_state db now i st None e) i = Some r' \<and>
              state r' = st \<and> pid r' = pid r)) \<and>
     (state r \<noteq> RUNNING \<longrightarrow>
        (\<exists>ctl' db' r'. start_process ctl db now now' (Inr v) i = (True, ctl', db') \<and>
           processes ctl' i = Some v \<and>
           select_by_id db' i = Some r' \<and> state r' = RUNNING \<and> pid r' = Some v)) \<and>
     (state r \<noteq> RUNNING \<longrightarrow>
        (\<exists>db' r'. start_process ctl db now now' (Inl msg) i = (False, ctl, db') \<and>
           select_by_id db' i = Some r' \<and> state r' = FAILED \<and> pid r' = None)) \<and>
     (state r = RUNNING \<longrightarrow>
        (\<exists>ctl' db' r'. stop_process ctl db now now' None i force = (True, ctl', db') \<and>
           processes ctl' i = None \<and>
           select_by_id db' i = Some r' \<and> state r' = STOPPED \<and> pid r' = None)) \<and>
     (state r = RUNNING \<longrightarrow>
        (\<exists>ctl' db' r'. stop_process ctl db now now' (Some msg) i force = (False, ctl', db') \<and>
           select_by_id db' i = Some r' \<and> state r' = FAILED \<and> pid r' = None)) \<and>
     (pid info = Some q \<and> q \<noteq> 0 \<and> \<not> alive q \<and> id_key info = i \<and>
      state r \<notin> {STOPPING, STOPPED} \<longrightarrow>
        (\<exists>r'. select_by_id (check_process db now alive info) i = Some r' \<and>
           state r' = CRASHED \<and> pid r' = None)) \<and>
     (state r = STARTING \<longrightarrow>
        (\<exists>hm' db' r'. register_heartbeat hm db now i = (True, hm', db') \<and>
           select_by_id db' i = Some r' \<and> state r' = RUNNING \<and> pid r' = pid r))"
proof -
  have upd: "\<And>d t s a b. select_by_id d i = Some r \<Longrightarrow>
      select_by_id (update_state d t i s a b) i = Some (update_state_row t s a b r)"
    by (simp add: select_by_id_update_state)
  have gp: "get_process db i = Some (row_to_process_info r)"
    using assms by (simp add: get_process_def)
  have c1: "st \<in> {STOPPED, FAILED, CRASHED} \<longrightarrow>
        (\<exists>r'. select_by_id (update_state db now i st p e) i = Some r' \<and>
              state r' = st \<and> pid r' = None)"
    using assms
    by (auto simp: select_by_id_update_state pid_update_state_row split: option.splits)
  have c2: "\<exists>r'. select_by_id (update_state db now i RUNNING (Some v) e) i = Some r' \<and>
           state r' = RUNNING \<and> pid r' = Some v"
    using assms
    by (auto simp: select_by_id_update_state pid_update_state_row split: option.splits)
  have c3: "st \<in> {REGISTERED, STARTING, RUNNING, STOPPING} \<longrightarrow>
        (\<exists>r'. select_by_id (update_state db now i st None e) i = Some r' \<and>
              state r' = st \<and> pid r' = pid r)"
    using assms
    by (auto simp: select_by_id_update_state pid_update_state_row split: option.splits)
  have c4: "state r \<noteq> RUNNING \<longrightarrow>
        (\<exists>ctl' db' r'. start_process ctl db now now' (Inr v) i = (True, ctl', db') \<and>
           processes ctl' i = Some v \<and>
           select_by_id db' i = Some r' \<and> state r' = RUNNING \<and> pid r' = Some v)"
    using assms gp
    by (auto simp: start_process_def Let_def start_restart_monitor_def
        select_by_id_update_state pid_update_state_row)
  have c5: "state r \<noteq> RUNNING \<longrightarrow>
        (\<exists>db' r'. start_process ctl db now now' (Inl msg) i = (False, ctl, db') \<and>
           select_by_id db' i = Some r' \<and> state r' = FAILED \<and> pid r' = None)"
    using assms gp
    by (auto simp: start_process_def Let_def select_by_id_update_state pid_update_state_row)
  have c6: "state r = RUNNING \<longrightarrow>
        (\<exists>ctl' db' r'. stop_process ctl db now now' None i force = (True, ctl', db') \<and>
           processes ctl' i = None \<and>
           select_by_id db' i = Some r' \<and> state r' = STOPPED \<and> pid r' = None)"
    using assms gp
    by (auto simp: stop_process_def Let_def stop_restart_monitor_def
        select_by_id_update_state pid_update_state_row)
  have c7: "state r = RUNNING \<longrightarrow>
        (\<exists>ctl' db' r'. stop_process ctl db now now' (Some msg) i force = (False, ctl', db') \<and>
           select_by_id db' i = Some r' \<and> state r' = FAILED \<and> pid r' = None)"
    using assms gp
    by (auto simp: stop_process_def Let_def select_by_id_update_state pid_update_state_row)
  have c8: "pid info = Some q \<and> q \<noteq> 0 \<and> \<not> alive q \<and> id_key info = i \<and>
      state r \<notin> {STOPPING, STOPPED} \<longrightarrow>
        (\<exists>r'. select_by_id (check_process db now alive info) i = Some r' \<and>
           state r' = CRASHED \<and> pid r' = None)"
    using assms gp
    by (auto simp: check_process_def select_by_id_update_state pid_update_state_row)
  have c9: "state r = STARTING \<longrightarrow>
        (\<exists>hm' db' r'. register_heartbeat hm db now i = (True, hm', db') \<and>
           select_by_id db' i = Some r' \<and> state r' = RUNNING \<and> pid r' = pid r)"
    using assms gp
    by (auto simp: register_heartbeat_def Let_def select_by_id_update_state
        select_by_id_update_heartbeat pid_update_state_row)
  from c1 c2 c3 c4 c5 c6 c7 c8 c9 show ?thesis by blast
qed

theorem pid_after_transitions_witness:
  "select_by_id [example_row STARTING None None] ''w_20250101_120000'' =
     Some (example_row STARTING None None) \<and>
   (\<exists>ctl' db' r'.
      start_process example_controller [example_row STARTING None None] 50 60 (Inr 77)
        ''w_20250101_120000'' = (True, ctl', db') \<and>
      processes ctl' ''w_20250101_120000'' = Some 77 \<and>
      select_by_id db' ''w_20250101_120000'' = Some r' \<and> state r' = RUNNING \<and> pid r' = Some 77) \<and>
   (\<exists>hm' db' r'.
      register_heartbeat \<lparr>active_processes = {}\<rparr> [example_row STARTING None None] 50
        ''w_20250101_120000'' = (True, hm', db') \<and>
      select_by_id db' ''w_20250101_120000'' = Some r' \<and> state r' = RUNNING \<and> pid r' = None)"
proof -
  have h: "select_by_id [example_row STARTING None None] ''w_20250101_120000'' =
     Some (example_row STARTING None None)"
    by (simp add: select_by_id_def example_row_def)
  have s: "state (example_row STARTING None None) = STARTING"
    "pid (example_row STARTING None None) = None"
    by (simp_all add: example_row_def)
  show ?thesis
    using h s pid_after_transitions [OF h, where ctl = example_controller and now = 50
        and now' = 60 and v = 77 and hm = "\<lparr>active_processes = {}\<rparr>"]
    by simp
qed

text \<open>
  C2 as stated fails in both directions: a heartbeat moves a STARTING record that has
  no pid into RUNNING without setting one, and a record entering STOPPING keeps its pid.
\<close>

theorem running_without_pid_counterexample:
  "register_heartbeat \<lparr>active_processes = {}\<rparr> [example_row STARTING None None] 50
     ''w_20250101_120000'' =
     (True, \<lparr>active_processes = {''w_20250101_120000''}\<rparr>,
      [(example_row STARTING None None)
         \<lparr>state := RUNNING, started_at := Some 50, last_heartbeat := Some 50,
          updated_at := 50\<rparr>]) \<and>
   pid ((example_row STARTING None None)
         \<lparr>state := RUNNING, started_at := Some 50, last_heartbeat := Some 50,
          updated_at := 50\<rparr>) = None \<and>
   update_state [example_row RUNNING (Some 4242) None] 50 ''w_20250101_120000'' STOPPING None None =
     [(example_row RUNNING (Some 4242) None)\<lparr>state := STOPPING, updated_at := 50\<rparr>] \<and>
   pid ((example_row RUNNING (Some 4242) None)\<lparr>state := STOPPING, updated_at := 50\<rparr>) = Some 4242"
  by (simp add: register_heartbeat_def get_process_def select_by_id_def update_heartbeat_def
      update_state_def update_state_row_def example_row_def row_to_process_info_def)

section \<open>Command composition by process type\<close>

lemma split_from_tokens:
  "\<forall>c\<in>set cur. \<not> is_space c \<Longrightarrow> t \<in> set (split_from cur cs) \<Longrightarrow>
   t \<noteq> [] \<and> (\<forall>c\<in>set t. \<not> is_space c)"
proof (induction cs arbitrary: cur)
  case Nil
  then show ?case by (auto split: if_splits)
next
  case (Cons a cs)
  show ?case
  proof (cases "is_space a")
    case True
    then have "(t = cur \<and> cur \<noteq> []) \<or> t \<in> set (split_from [] cs)"
      using Cons.prems(2) by (auto split: if_splits)
    then show ?thesis
      using Cons.IH [of "[]"] Cons.prems(1) by auto
  next
    case False
    then have "t \<in> set (split_from (cur @ [a]) cs)"
      using Cons.prems(2) by simp
    moreover have "\<forall>c\<in>set (cur @ [a]). \<not> is_space c"
      using False Cons.prems(1) by simp
    ultimately show ?thesis
      using Cons.IH by blast
  qed
qed

lemma concat_split_from:
  "concat (split_from cur cs) = cur @ filter (\<lambda>c. \<not> is_space c) cs"
  by (induction cs arbitrary: cur) auto

lemma split_from_skip:
  "\<forall>c\<in>set ws. is_space c \<Longrightarrow> split_from [] (ws @ s) = split_from [] s"
  by (induction ws) auto

lemma split_from_collect:
  "\<forall>c\<in>set t. \<not> is_space c \<Longrightarrow> split_from cur (t @ s) = split_from (cur @ t) s"
  by (induction t arbitrary: cur) auto

lemma split_token_then_space:
  assumes "t \<noteq> []" and "\<forall>x\<in>set t. \<not> is_space x" and "is_space c"
  shows "split (t @ c # s) = t # split s"
  using assms by (simp add: split_def split_from_collect)

lemma split_single_token:
  assumes "t \<noteq> []" and "\<forall>x\<in>set t. \<not> is_space x"
  shows "split t = [t]"
  using assms split_from_collect [of t "[]" "[]"] by (simp add: split_def)

lemma basename_no_slash: "CHR ''/'' \<notin> set (basename s)"
  by (induction s) auto

lemma basename_suffix:
  "\<exists>d. s = d @ basename s \<and> (d = [] \<or> last d = CHR ''/'')"
proof (induction s)
  case Nil
  then show ?case by simp
next
  case (Cons c cs)
  then obtain d where d: "cs = d @ basename cs" "d = [] \<or> last d = CHR ''/''" by blast
  show ?case
  proof (cases "CHR ''/'' \<in> set cs")
    case True
    then have "d \<noteq> []" using d basename_no_slash [of cs] by (metis append_Nil)
    then have "c # cs = (c # d) @ basename (c # cs) \<and> last (c # d) = CHR ''/''"
      using d True by auto
    then show ?thesis by blast
  next
    case False
    show ?thesis
    proof (cases "c = CHR ''/''")
      case True
      then have "c # cs = [c] @ basename (c # cs) \<and> last [c] = CHR ''/''"
        using False by simp
      then show ?thesis by blast
    next
      case False
      then have "c # cs = [] @ basename (c # cs)"
        using \<open>CHR ''/'' \<notin> set cs\<close> by simp
      then show ?thesis by blast
    qed
  qed
qed

text \<open>
  C9. The command is determined by the type of the configuration: for a Python script
  the interpreter (the one of the venv when it exists, \<open>python3\<close> otherwise), \<open>-u\<close> and
  the basename of the command; for a Node.js script \<open>node\<close> and the command; for a
  shell command the command string itself, the only case run through a shell; for
  Docker \<open>docker\<close>, \<open>run\<close> and the tokens of the command; for a custom process the
  tokens of the command. The tokens are the maximal runs of characters that are not
  whitespace: none is empty, none holds whitespace, together they are the command
  without its whitespace, leading whitespace is skipped and a token ends at the first
  whitespace after it. The basename holds no slash and is what follows the last one.
\<close>

theorem prepare_command_by_type:
  "(type cfg = PYTHON \<longrightarrow>
      prepare_command venv cfg =
        Argv [case venv of Some path \<Rightarrow> path | None \<Rightarrow> ''python3'', ''-u'',
              basename (command cfg)]) \<and>
   (type cfg = NODEJS \<longrightarrow> prepare_command venv cfg = Argv [''node'', command cfg]) \<and>
   (type cfg = SHELL \<longrightarrow> prepare_command venv cfg = ShellString (command cfg)) \<and>
   (type cfg = DOCKER \<longrightarrow>
      prepare_command venv cfg = Argv (''docker'' # ''run'' # split (command cfg))) \<and>
   (type cfg = CUSTOM \<longrightarrow> prepare_command venv cfg = Argv (split (command cfg))) \<and>
   uses_shell (prepare_command venv cfg) = (type cfg = SHELL) \<and>
   (\<forall>t\<in>set (split (command cfg)). t \<noteq> [] \<and> (\<forall>c\<in>set t. \<not> is_space c)) \<and>
   concat (split (command cfg)) = filter (\<lambda>c. \<not> is_space c) (command cfg) \<and>
   (\<forall>ws s. (\<forall>c\<in>set ws. is_space c) \<longrightarrow> split (ws @ s) = split s) \<and>
   (\<forall>t c s. t \<noteq> [] \<and> (\<forall>x\<in>set t. \<not> is_space x) \<and> is_space c \<longrightarrow>
      split (t @ c # s) = t # split s) \<and>
   (\<forall>t. t \<noteq> [] \<and> (\<forall>x\<in>set t. \<not> is_space x) \<longrightarrow> split t = [t]) \<and>
   split [] = [] \<and>
   CHR ''/'' \<notin> set (basename (command cfg)) \<and>
   (\<exists>d. command cfg = d @ basename (command cfg) \<and> (d = [] \<or> last d = CHR ''/''))"
proof -
  have table:
    "(type cfg = PYTHON \<longrightarrow>
      prepare_command venv cfg =
        Argv [case venv of Some path \<Rightarrow> path | None \<Rightarrow> ''python3'', ''-u'',
              basename (command cfg)]) \<and>
     (type cfg = NODEJS \<longrightarrow> prepare_command venv cfg = Argv [''node'', command cfg]) \<and>
     (type cfg = SHELL \<longrightarrow> prepare_command venv cfg = ShellString (command cfg)) \<and>
     (type cfg = DOCKER \<longrightarrow>
        prepare_command venv cfg = Argv (''docker'' # ''run'' # split (command cfg))) \<and>
     (type cfg = CUSTOM \<longrightarrow> prepare_command venv cfg = Argv (split (command cfg)))"
    by (simp add: prepare_command_def split: option.splits)
  have shell: "uses_shell (prepare_command venv cfg) = (type cfg = SHELL)"
    by (cases "type cfg")
      (simp_all add: prepare_command_def uses_shell_def Let_def split: option.splits)
  have tokens: "\<forall>t\<in>set (split (command cfg)). t \<noteq> [] \<and> (\<forall>c\<in>set t. \<not> is_space c)"
    using split_from_tokens [of "[]" _ "command cfg"] by (simp add: split_def)
  have content: "concat (split (command cfg)) = filter (\<lambda>c. \<not> is_space c) (command cfg)"
    by (simp add: split_def concat_split_from)
  have skip: "\<forall>ws s. (\<forall>c\<in>set ws. is_space c) \<longrightarrow> split (ws @ s) = split s"
    by (simp add: split_def split_from_skip)
  have tok: "\<forall>t c s. t \<noteq> [] \<and> (\<forall>x\<in>set t. \<not> is_space x) \<and> is_space c \<longrightarrow>
      split (t @ c # s) = t # split s"
    using split_token_then_space by blast
  have single: "\<forall>t. t \<noteq> [] \<and> (\<forall>x\<in>set t. \<not> is_space x) \<longrightarrow> split t = [t]"
    using split_single_token by blast
  have empty: "split [] = []" by (simp add: split_def)
  have base: "CHR ''/'' \<notin> set (basename (command cfg))"
    by (rule basename_no_slash)
  have suffix: "\<exists>d. command cfg = d @ basename (command cfg) \<and> (d = [] \<or> last d = CHR ''/'')"
    by (rule basename_suffix)
  show ?thesis
    apply (intro conjI)
    using table apply blast
    using table apply blast
    using table apply blast
    using table apply blast
    using table apply blast
    using shell apply blast
    using tokens apply blast
    using content apply blast
    using skip apply blast
    using tok apply blast
    using single apply blast
    using empty apply blast
    using base apply blast
    using suffix apply blast
    done
qed

theorem prepare_command_by_type_witness:
  "prepare_command None (example_config\<lparr>command := ''scripts/app.py''\<rparr>) =
     Argv [''python3'', ''-u'', ''app.py''] \<and>
   prepare_command None (example_config\<lparr>type := CUSTOM, command := ''run  --x 1''\<rparr>) =
     Argv [''run'', ''--x'', ''1''] \<and>
   prepare_command None (example_config\<lparr>type := DOCKER, command := ''-d nginx''\<rparr>) =
     Argv [''docker'', ''run'', ''-d'', ''nginx'']"
proof -
  have a: "prepare_command None (example_config\<lparr>command := ''scripts/app.py''\<rparr>) =
     Argv [''python3'', ''-u'', ''app.py'']"
    using prepare_command_by_type [of "example_config\<lparr>command := ''scripts/app.py''\<rparr>" None]
    by (simp add: example_config_def)
  have b: "prepare_command None (example_config\<lparr>type := CUSTOM, command := ''run  --x 1''\<rparr>) =
     Argv [''run'', ''--x'', ''1'']"
    using prepare_command_by_type [of "example_config\<lparr>type := CUSTOM, command := ''run  --x 1''\<rparr>" None]
    by (simp add: example_config_def split_def is_space_def)
  have c: "prepare_command None (example_config\<lparr>type := DOCKER, command := ''-d nginx''\<rparr>) =
     Argv [''docker'', ''run'', ''-d'', ''nginx'']"
    using prepare_command_by_type [of "example_config\<lparr>type := DOCKER, command := ''-d nginx''\<rparr>" None]
    by (simp add: example_config_def split_def is_space_def)
  from a b c show ?thesis by blast
qed

section \<open>Registration\<close>

lemma length_zpad [simp]: "length (zpad w n) = w"
  by (induction w arbitrary: n) auto

lemma length_strftime: "length (strftime dt) = 15"
  by (simp add: strftime_def)

lemma less_ten_cases:
  fixes m :: nat
  assumes "m < 10"
  shows "m = 0 \<or> m = 1 \<or> m = 2 \<or> m = 3 \<or> m = 4 \<or> m = 5 \<or> m = 6 \<or> m = 7 \<or> m = 8 \<or> m = 9"
  using assms by arith

lemma of_char_digit:
  fixes m :: nat
  assumes "m < 10"
  shows "of_char (''0123456789'' ! m) = 48 + m"
  using less_ten_cases [OF assms] by auto

lemma of_char_digit_char: "of_char (digit_char n) = 48 + n mod 10"
  unfolding digit_char_def by (rule of_char_digit) simp

lemma digit_char_digit: "digit_char n \<in> set ''0123456789''"
  unfolding digit_char_def by (rule nth_mem) simp

lemma decimal_snoc: "decimal (s @ [c]) = 10 * decimal s + (of_char c - 48)"
  by (simp add: decimal_def)

lemma decimal_zpad: "decimal (zpad w n) = n mod 10 ^ w"
proof (induction w arbitrary: n)
  case 0
  then show ?case by (simp add: decimal_def)
next
  case (Suc w)
  have "decimal (zpad (Suc w) n) = 10 * (n div 10 mod 10 ^ w) + n mod 10"
    by (simp add: decimal_snoc Suc.IH of_char_digit_char)
  also have "\<dots> = n mod (10 * 10 ^ w)"
    by (simp add: mod_mult2_eq)
  finally show ?case by simp
qed

lemma zpad_2: "zpad 2 n = [digit_char (n div 10), digit_char n]"
proof -
  have "zpad (Suc (Suc 0)) n = [digit_char (n div 10), digit_char n]" by simp
  then show ?thesis by (simp only: numeral_2_eq_2)
qed

lemma zpad_4:
  "zpad 4 n =
     [digit_char (n div 10 div 10 div 10), digit_char (n div 10 div 10),
      digit_char (n div 10), digit_char n]"
proof -
  have "zpad (Suc (Suc (Suc (Suc 0)))) n =
     [digit_char (n div 10 div 10 div 10), digit_char (n div 10 div 10),
      digit_char (n div 10), digit_char n]"
    by simp
  moreover have "(4::nat) = Suc (Suc (Suc (Suc 0)))" by simp
  ultimately show ?thesis by (simp only:)
qed

lemma strftime_chars:
  "strftime dt =
     [digit_char (year dt div 10 div 10 div 10), digit_char (year dt div 10 div 10),
      digit_char (year dt div 10), digit_char (year dt),
      digit_char (month dt div 10), digit_char (month dt),
      digit_char (day dt div 10), digit_char (day dt), CHR ''_'',
      digit_char (hour dt div 10), digit_char (hour dt),
      digit_char (minute dt div 10), digit_char (minute dt),
      digit_char (second dt div 10), digit_char (second dt)]"
  by (simp add: strftime_def zpad_2 zpad_4)

lemma strftime_digit:
  assumes "k < 15" and "k \<noteq> 8"
  shows "strftime dt ! k \<in> set ''0123456789''"
proof -
  from assms have "k = 0 \<or> k = 1 \<or> k = 2 \<or> k = 3 \<or> k = 4 \<or> k = 5 \<or> k = 6 \<or> k = 7 \<or>
      k = 9 \<or> k = 10 \<or> k = 11 \<or> k = 12 \<or> k = 13 \<or> k = 14"
    by arith
  then obtain n where "strftime dt ! k = digit_char n"
    by (auto simp: strftime_chars)
  then show ?thesis
    by (simp only: digit_char_digit)
qed

lemma select_by_name_None: "select_by_name db n = None \<longleftrightarrow> (\<forall>r\<in>set db. name_col r \<noteq> n)"
  by (auto simp: select_by_name_def find_None_iff)

lemma select_by_id_None: "select_by_id db i = None \<longleftrightarrow> (\<forall>r\<in>set db. id_key r \<noteq> i)"
  by (auto simp: select_by_id_def find_None_iff)

lemma minted_id_fresh:
  assumes "registry_invariant db" and "select_by_name db n = None" and "length ts = 15"
  shows "select_by_id db (n @ ''_'' @ ts) = None"
proof -
  have "id_key r \<noteq> n @ ''_'' @ ts" if r: "r \<in> set db" for r
  proof
    assume eq: "id_key r = n @ ''_'' @ ts"
    from assms(1) r have wf: "id_well_formed r"
      by (simp add: registry_invariant_def list_all_iff)
    from wf eq assms(3) have len: "length (name_col r) = length n"
      by (simp add: id_well_formed_def)
    from wf eq len have "name_col r @ ''_'' = n @ ''_''"
      by (simp add: id_well_formed_def)
    then have "name_col r = n" by simp
    with assms(2) r show False
      by (simp add: select_by_name_None)
  qed
  then show ?thesis by (simp add: select_by_id_None)
qed

lemma new_row_well_formed:
  "length ts = 15 \<Longrightarrow> id_well_formed (new_row (name cfg @ ''_'' @ ts) cfg now)"
  by (simp add: id_well_formed_def new_row_def)

text \<open>
  The other operations of the registry keep the ids and names of the rows, so every
  store reached from the empty one has ids minted by \<open>register\<close>.
\<close>

lemma id_well_formed_cong:
  "id_key r' = id_key r \<Longrightarrow> name_col r' = name_col r \<Longrightarrow>
   id_well_formed r' = id_well_formed r"
  by (simp add: id_well_formed_def)

lemma registry_invariant_preserved:
  assumes "registry_invariant db"
  shows "registry_invariant (update_state db now i st p e)"
    and "registry_invariant (update_heartbeat db now i)"
    and "registry_invariant (increment_restart_count db i)"
    and "registry_invariant (cleanup_stale_processes db now T)"
    and "registry_invariant (snd (unregister db i))"
proof -
  have u: "id_well_formed (update_state_row now st p e r) = id_well_formed r" for r
    by (rule id_well_formed_cong)
      (simp_all add: update_state_row_def Let_def split: option.splits)
  show "registry_invariant (update_state db now i st p e)"
    using assms by (auto simp: registry_invariant_def update_state_def list_all_iff u)
  show "registry_invariant (update_heartbeat db now i)"
    using assms
    by (auto simp: registry_invariant_def update_heartbeat_def list_all_iff id_well_formed_def)
  show "registry_invariant (increment_restart_count db i)"
    using assms
    by (auto simp: registry_invariant_def increment_restart_count_def list_all_iff
        id_well_formed_def)
  show "registry_invariant (cleanup_stale_processes db now T)"
    using assms
    by (auto simp: registry_invariant_def cleanup_stale_processes_def list_all_iff
        id_well_formed_def)
  show "registry_invariant (snd (unregister db i))"
    using assms by (simp add: registry_invariant_def unregister_def list_all_iff)
qed

text \<open>
  C6. When a record with the name of the configuration exists, \<open>register\<close> raises the
  \<open>ValueError\<close> of the name conflict and the store is unchanged. Otherwise, on a store
  whose ids were all minted by the registry, it appends exactly one record, in state
  REGISTERED with restart count 0, no pid and the given configuration, and returns its
  id, which no record had before: the name, an underscore and the timestamp. The
  timestamp has 15 characters, an underscore at position 8 and decimal digits
  elsewhere, which for a valid date and time read as year, month, day, hour, minute
  and second.
\<close>

theorem register_outcome:
  "((\<exists>r\<in>set db. name_col r = name cfg) \<longrightarrow>
      (\<exists>msg. register db now dt cfg = (Inl (ValueError msg), db))) \<and>
   (\<not> (\<exists>r\<in>set db. name_col r = name cfg) \<and> registry_invariant db \<longrightarrow>
      (\<exists>process_id r.
         register db now dt cfg = (Inr process_id, db @ [r]) \<and>
         process_id = name cfg @ ''_'' @ strftime dt \<and>
         select_by_id db process_id = None \<and>
         r = new_row process_id cfg now \<and>
         id_key r = process_id \<and> config r = cfg \<and> name_col r = name cfg \<and>
         state r = REGISTERED \<and> restart_count r = 0 \<and> pid r = None \<and>
         registry_invariant (db @ [r]))) \<and>
   length (strftime dt) = 15 \<and> strftime dt ! 8 = CHR ''_'' \<and>
   (\<forall>k < 15. k \<noteq> 8 \<longrightarrow> strftime dt ! k \<in> set ''0123456789'') \<and>
   (valid_datetime dt \<longrightarrow>
      decimal (take 4 (strftime dt)) = year dt \<and>
      decimal (take 2 (drop 4 (strftime dt))) = month dt \<and>
      decimal (take 2 (drop 6 (strftime dt))) = day dt \<and>
      decimal (take 2 (drop 9 (strftime dt))) = hour dt \<and>
      decimal (take 2 (drop 11 (strftime dt))) = minute dt \<and>
      decimal (take 2 (drop 13 (strftime dt))) = second dt)"
proof -
  have conflict: "(\<exists>r\<in>set db. name_col r = name cfg) \<longrightarrow>
      (\<exists>msg. register db now dt cfg = (Inl (ValueError msg), db))"
  proof
    assume "\<exists>r\<in>set db. name_col r = name cfg"
    then have "select_by_name db (name cfg) \<noteq> None"
      by (simp add: select_by_name_None)
    then show "\<exists>msg. register db now dt cfg = (Inl (ValueError msg), db)"
      by (auto simp: register_def)
  qed
  have insert: "\<not> (\<exists>r\<in>set db. name_col r = name cfg) \<and> registry_invariant db \<longrightarrow>
      (\<exists>process_id r.
         register db now dt cfg = (Inr process_id, db @ [r]) \<and>
         process_id = name cfg @ ''_'' @ strftime dt \<and>
         select_by_id db process_id = None \<and>
         r = new_row process_id cfg now \<and>
         id_key r = process_id \<and> config r = cfg \<and> name_col r = name cfg \<and>
         state r = REGISTERED \<and> restart_count r = 0 \<and> pid r = None \<and>
         registry_invariant (db @ [r]))"
  proof
    assume a: "\<not> (\<exists>r\<in>set db. name_col r = name cfg) \<and> registry_invariant db"
    then have n: "select_by_name db (name cfg) = None"
      by (simp add: select_by_name_None)
    from a have inv: "registry_invariant db" by simp
    have f: "select_by_id db (name cfg @ ''_'' @ strftime dt) = None"
      by (rule minted_id_fresh [OF inv n length_strftime])
    have wf: "id_well_formed (new_row (name cfg @ ''_'' @ strftime dt) cfg now)"
      by (rule new_row_well_formed) (rule length_strftime)
    from n f have "register db now dt cfg =
        (Inr (name cfg @ ''_'' @ strftime dt),
         db @ [new_row (name cfg @ ''_'' @ strftime dt) cfg now])"
      by (simp add: register_def Let_def)
    moreover have "registry_invariant (db @ [new_row (name cfg @ ''_'' @ strftime dt) cfg now])"
      using a wf by (simp add: registry_invariant_def)
    ultimately show "\<exists>process_id r.
         register db now dt cfg = (Inr process_id, db @ [r]) \<and>
         process_id = name cfg @ ''_'' @ strftime dt \<and>
         select_by_id db process_id = None \<and>
         r = new_row process_id cfg now \<and>
         id_key r = process_id \<and> config r = cfg \<and> name_col r = name cfg \<and>
         state r = REGISTERED \<and> restart_count r = 0 \<and> pid r = None \<and>
         registry_invariant (db @ [r])"
      using f by (simp add: new_row_def)
  qed
  have sep: "strftime dt ! 8 = CHR ''_''"
    by (simp add: strftime_chars)
  have digits: "\<forall>k < 15. k \<noteq> 8 \<longrightarrow> strftime dt ! k \<in> set ''0123456789''"
    using strftime_digit by blast
  have fields: "valid_datetime dt \<longrightarrow>
      decimal (take 4 (strftime dt)) = year dt \<and>
      decimal (take 2 (drop 4 (strftime dt))) = month dt \<and>
      decimal (take 2 (drop 6 (strftime dt))) = day dt \<and>
      decimal (take 2 (drop 9 (strftime dt))) = hour dt \<and>
      decimal (take 2 (drop 11 (strftime dt))) = minute dt \<and>
      decimal (take 2 (drop 13 (strftime dt))) = second dt"
    by (simp add: strftime_def valid_datetime_def decimal_zpad)
  show ?thesis
    apply (intro conjI)
    using conflict apply blast
    using insert apply blast
    using length_strftime apply blast
    using sep apply blast
    using digits apply blast
    using fields apply blast
    done
qed

theorem register_outcome_witness:
  "register [] 5 example_datetime example_config =
     (Inr ''w_20250101_120000'', [new_row ''w_20250101_120000'' example_config 5]) \<and>
   (\<exists>msg. register [new_row ''w_20250101_120000'' example_config 5] 9 example_datetime
             example_config =
           (Inl (ValueError msg), [new_row ''w_20250101_120000'' example_config 5])) \<and>
   valid_datetime example_datetime \<and>
   decimal (take 4 (strftime example_datetime)) = 2025"
proof -
  have ts: "strftime example_datetime = ''20250101_120000''"
    by (simp add: strftime_chars example_datetime_def digit_char_def)
  have nm: "name example_config = ''w''"
    by (simp add: example_config_def)
  have inv: "registry_invariant []"
    by (simp add: registry_invariant_def)
  have a: "register [] 5 example_datetime example_config =
     (Inr ''w_20250101_120000'', [new_row ''w_20250101_120000'' example_config 5])"
    using inv register_outcome [of "[]" example_config 5 example_datetime]
    by (simp add: ts nm)
  have taken: "\<exists>r\<in>set [new_row ''w_20250101_120000'' example_config 5].
      name_col r = name example_config"
    by (simp add: new_row_def)
  have b: "\<exists>msg. register [new_row ''w_20250101_120000'' example_config 5] 9 example_datetime
             example_config =
           (Inl (ValueError msg), [new_row ''w_20250101_120000'' example_config 5])"
    using taken
      register_outcome [of "[new_row ''w_20250101_120000'' example_config 5]" example_config 9
        example_datetime]
    by blast
  have v: "valid_datetime example_datetime"
    by (simp add: valid_datetime_def example_datetime_def)
  have y: "decimal (take 4 (strftime example_datetime)) = 2025"
    using v register_outcome [of "[]" example_config 5 example_datetime]
    by (simp add: example_datetime_def)
  from a b v y show ?thesis by blast
qed

end
